theory Spec2Isabelle
  imports Main "HOL-Library.Char_ord" "HOL-Library.List_Lexorder"
begin

section \<open>Values, errors and text\<close>

text \<open>
  The program is one Python 3 module, \<^verbatim>\<open>airport.py\<close>. Text (\<^verbatim>\<open>str\<close>) and byte strings
  (\<^verbatim>\<open>bytes\<close>) are both modelled as \<^typ>\<open>string\<close>, a list of 8-bit characters: a byte is
  a character, and a character of a \<^verbatim>\<open>str\<close> is a code point below 256. The order on
  \<^typ>\<open>string\<close> is the lexicographic order of the character codes, which is how Python
  compares two \<^verbatim>\<open>bytes\<close> (or two \<^verbatim>\<open>str\<close>) objects.

  An exception that leaves a function is a value \<open>Inl e\<close> of the result.
\<close>

datatype error = ValueError | TypeError | IndexError | UnboundLocalError

abbreviation newline :: char where
  "newline \<equiv> CHR 0x0A"

text \<open>
  \<^verbatim>\<open>readlines()\<close>, and iterating over a file: the content is cut after every newline
  character, each line keeps its newline, and a last line with no newline is a line too.
  The empty content has no line.
\<close>

fun readlines :: "string \<Rightarrow> string list" where
  "readlines [] = []"
| "readlines (c # cs) =
     (if c = newline then [c] # readlines cs
      else (case readlines cs of [] \<Rightarrow> [[c]] | l # ls \<Rightarrow> (c # l) # ls))"

section \<open>The fetchers\<close>

text \<open>
  The remote server is a parameter of the model. \<^verbatim>\<open>urllib.request.urlopen(urlStr)\<close>
  either raises \<^verbatim>\<open>IOError\<close> or returns a handle; reading the handle either raises
  \<^verbatim>\<open>IOError\<close> or delivers the whole content of the resource; \<^verbatim>\<open>close()\<close> either raises
  \<^verbatim>\<open>IOError\<close> or returns.
\<close>

datatype 'a io = IOError | Ok 'a

record response =
  body :: "string io"
  closing :: "unit io"

type_synonym network = "string \<Rightarrow> response io"

text \<open>
  The three statements under \<^verbatim>\<open>try:\<close>, which the three fetchers share word for word
  (\<^verbatim>\<open>read()\<close> and \<^verbatim>\<open>readlines()\<close> fail alike; they differ in the shape of what they return):
  \<^verbatim>\<open>
    fileHandle = urllib.request.urlopen(urlStr)
    taf = fileHandle.readlines()
    fileHandle.close()
  \<close>
\<close>

definition try_block :: "network \<Rightarrow> string \<Rightarrow> string io" where
  "try_block net urlStr =
     (case net urlStr of
        IOError \<Rightarrow> IOError
      | Ok fileHandle \<Rightarrow>
          (case body fileHandle of
             IOError \<Rightarrow> IOError
           | Ok content \<Rightarrow>
               (case closing fileHandle of
                  IOError \<Rightarrow> IOError
                | Ok u \<Rightarrow> Ok content)))"

text \<open>
  What a forecast fetcher returns: the \<^verbatim>\<open>str\<close> \<^verbatim>\<open>'error'\<close>, or a list of \<^verbatim>\<open>bytes\<close>
  lines. A list never equals a \<^verbatim>\<open>str\<close> in Python, so \<^verbatim>\<open>taf == 'error'\<close> is the test
  for the first constructor. The observation fetcher returns the \<^verbatim>\<open>str\<close> \<^verbatim>\<open>'error'\<close> or
  one \<^verbatim>\<open>bytes\<close> object; a \<^verbatim>\<open>bytes\<close> object never equals a \<^verbatim>\<open>str\<close> either.
\<close>

datatype report = Error_Str | Lines "string list"


text \<open>
  A fetcher returns the lines it printed on standard output next to its value.
\<close>

definition cannot_open :: "string \<Rightarrow> string" where
  "cannot_open urlStr = ''Cannot open URL '' @ urlStr @ '' for reading''"

definition taf_url :: "string \<Rightarrow> string" where
  "taf_url icao = ''ftp://tgftp.nws.noaa.gov/data/forecasts/taf/stations/'' @ icao @ ''.TXT''"

definition shorttaf_url :: "string \<Rightarrow> string" where
  "shorttaf_url icao =
     ''ftp://tgftp.nws.noaa.gov/data/forecasts/shorttaf/stations/'' @ icao @ ''.TXT''"


definition get_taf :: "network \<Rightarrow> string \<Rightarrow> string list \<times> report" where
  "get_taf net icao =
     (let urlStr = taf_url icao in
      case try_block net urlStr of
        Ok content \<Rightarrow> ([], Lines (readlines content))
      | IOError \<Rightarrow> ([cannot_open urlStr], Error_Str))"

definition get_shorttaf :: "network \<Rightarrow> string \<Rightarrow> string list \<times> report" where
  "get_shorttaf net icao =
     (let urlStr = shorttaf_url icao in
      case try_block net urlStr of
        Ok content \<Rightarrow> ([], Lines (readlines content))
      | IOError \<Rightarrow> ([cannot_open urlStr], Error_Str))"



section \<open>The report selector\<close>

text \<open>
  \<^verbatim>\<open>
    taf = get_taf(icao)
    shorttaf = get_shorttaf(icao)
    if taf == 'error':
        return shorttaf
    elif shorttaf == 'error':
        return taf
    elif taf[0] > shorttaf[0]:
        return taf
    else:
        return shorttaf
  \<close>
  In the third test both values are lists; \<^verbatim>\<open>taf[0]\<close> is evaluated first, then
  \<^verbatim>\<open>shorttaf[0]\<close>, and indexing an empty list raises \<^verbatim>\<open>IndexError\<close>.
\<close>

definition get_latest_report :: "network \<Rightarrow> string \<Rightarrow> string list \<times> (error + report)" where
  "get_latest_report net icao =
     (let (out1, taf) = get_taf net icao;
          (out2, shorttaf) = get_shorttaf net icao
      in (out1 @ out2,
          (case taf of
             Error_Str \<Rightarrow> Inr shorttaf
           | Lines ts \<Rightarrow>
               (case shorttaf of
                  Error_Str \<Rightarrow> Inr taf
                | Lines ss \<Rightarrow>
                    (case ts of
                       [] \<Rightarrow> Inl IndexError
                     | t0 # trest \<Rightarrow>
                         (case ss of
                            [] \<Rightarrow> Inl IndexError
                          | s0 # srest \<Rightarrow>
                              if t0 > s0 then Inr taf else Inr shorttaf))))))"

section \<open>Text operations of the Python library\<close>

text \<open>
  \<^verbatim>\<open>str.strip()\<close> removes, at both ends, the characters for which \<^verbatim>\<open>str.isspace()\<close>
  holds. Below code point 256 these are 9 to 13, 28 to 32, 133 and 160.
\<close>

definition isspace :: "char \<Rightarrow> bool" where
  "isspace c \<longleftrightarrow>
     c \<in> set [CHR 0x09, CHR 0x0A, CHR 0x0B, CHR 0x0C, CHR 0x0D, CHR 0x1C, CHR 0x1D,
              CHR 0x1E, CHR 0x1F, CHR 0x20, CHR 0x85, CHR 0xA0]"

definition strip_with :: "(char \<Rightarrow> bool) \<Rightarrow> string \<Rightarrow> string" where
  "strip_with sp s = rev (dropWhile sp (rev (dropWhile sp s)))"

definition strip :: "string \<Rightarrow> string" where
  "strip s = strip_with isspace s"

text \<open>
  \<^verbatim>\<open>s.split(",")\<close>: the fields between the commas, empty fields included; a string
  with no comma is one field.
\<close>

fun split_comma :: "string \<Rightarrow> string list" where
  "split_comma [] = [[]]"
| "split_comma (c # cs) =
     (if c = CHR '','' then [] # split_comma cs
      else (case split_comma cs of [] \<Rightarrow> [[c]] | f # fs \<Rightarrow> (c # f) # fs))"

text \<open>\<^verbatim>\<open>s[a:b]\<close> for indices \<open>0 \<le> a \<le> b\<close>; a slice never raises.\<close>

definition slice :: "nat \<Rightarrow> nat \<Rightarrow> string \<Rightarrow> string" where
  "slice a b s = take (b - a) (drop a s)"

subsection \<open>Numbers from text\<close>

text \<open>
  \<^verbatim>\<open>int(s)\<close> and \<^verbatim>\<open>float(s)\<close> of a \<^verbatim>\<open>str\<close> first drop white space at both ends. In
  CPython a \<^verbatim>\<open>str\<close> of ASCII characters only is taken as it is. Any other \<^verbatim>\<open>str\<close> is
  first rewritten character by character: a code point below 127 stays, an \<^verbatim>\<open>isspace\<close>
  character from 127 on (133 and 160 here) becomes a blank, and at the first other
  character (none from 127 to 255 is a decimal digit) a question mark is written and
  the rest is dropped. Then the C white space (9 to 13 and 32) is removed at both ends;
  the characters 28 to 31 are never removed. What is left must be a literal of the
  grammar
  \<^verbatim>\<open>
    digitpart   ::= digit (["_"] digit)*
    integer     ::= ["+" | "-"] digitpart
    number      ::= [digitpart] "." digitpart | digitpart ["."]
    exponent    ::= ("e" | "E") ["+" | "-"] digitpart
    floatvalue  ::= ["+" | "-"] (number [exponent] | "inf" | "infinity" | "nan")
  \<close>
  (\<^verbatim>\<open>inf\<close>, \<^verbatim>\<open>infinity\<close> and \<^verbatim>\<open>nan\<close> in any mix of cases), or \<^verbatim>\<open>ValueError\<close> is raised.
\<close>

definition is_digit :: "char \<Rightarrow> bool" where
  "is_digit c \<longleftrightarrow> c \<in> set ''0123456789''"

definition is_ascii :: "char \<Rightarrow> bool" where
  "is_ascii c \<longleftrightarrow> \<not> digit7 c"

definition c_isspace :: "char \<Rightarrow> bool" where
  "c_isspace c \<longleftrightarrow> c \<in> set [CHR 0x09, CHR 0x0A, CHR 0x0B, CHR 0x0C, CHR 0x0D, CHR 0x20]"

fun to_ascii :: "string \<Rightarrow> string" where
  "to_ascii [] = []"
| "to_ascii (c # cs) =
     (if of_char c < (127::nat) then c # to_ascii cs
      else if isspace c then CHR '' '' # to_ascii cs
      else ''?'')"

definition num_strip :: "string \<Rightarrow> string" where
  "num_strip s = strip_with c_isspace (if list_all is_ascii s then s else to_ascii s)"

fun digitpart :: "string \<Rightarrow> bool" where
  "digitpart [] = False"
| "digitpart [c] = is_digit c"
| "digitpart (c # d # cs) =
     (is_digit c \<and> (if d = CHR ''_'' then digitpart cs else digitpart (d # cs)))"

definition unsigned :: "string \<Rightarrow> string" where
  "unsigned s = (case s of [] \<Rightarrow> [] | c # cs \<Rightarrow> if c = CHR ''+'' \<or> c = CHR ''-'' then cs else s)"

definition digit_value :: "char \<Rightarrow> int" where
  "digit_value c = int (of_char c) - 48"

definition decimal :: "string \<Rightarrow> int" where
  "decimal ds = foldl (\<lambda>a c. 10 * a + digit_value c) 0 ds"

definition py_int :: "string \<Rightarrow> error + int" where
  "py_int s =
     (let t = num_strip s; ds = unsigned t in
      if digitpart ds
      then Inr ((if take 1 t = ''-'' then - 1 else 1) * decimal (filter (\<lambda>c. c \<noteq> CHR ''_'') ds))
      else Inl ValueError)"

definition lower :: "char \<Rightarrow> char" where
  "lower c = (if CHR ''A'' \<le> c \<and> c \<le> CHR ''Z'' then char_of (of_char c + (32::nat)) else c)"

definition number :: "string \<Rightarrow> bool" where
  "number m =
     (let ip = takeWhile (\<lambda>c. c \<noteq> CHR ''.'') m; r = dropWhile (\<lambda>c. c \<noteq> CHR ''.'') m in
      if r = [] then digitpart ip
      else (ip = [] \<and> digitpart (tl r)) \<or> (digitpart ip \<and> (tl r = [] \<or> digitpart (tl r))))"

definition floatnumber :: "string \<Rightarrow> bool" where
  "floatnumber s =
     (let m = takeWhile (\<lambda>c. c \<noteq> CHR ''e'' \<and> c \<noteq> CHR ''E'') s;
          r = dropWhile (\<lambda>c. c \<noteq> CHR ''e'' \<and> c \<noteq> CHR ''E'') s in
      number m \<and> (r = [] \<or> digitpart (unsigned (tl r))))"

definition floatvalue :: "string \<Rightarrow> bool" where
  "floatvalue s =
     (let a = unsigned s in
      map lower a = ''inf'' \<or> map lower a = ''infinity'' \<or> map lower a = ''nan'' \<or> floatnumber a)"

text \<open>
  A \<^verbatim>\<open>float\<close> object is kept as the literal it was read from. The loader needs no
  more: it calls \<^verbatim>\<open>float\<close> and drops the numbers, so all that counts is whether the call
  raises.
\<close>

datatype pyfloat = Float_Of string

definition py_float :: "string \<Rightarrow> error + pyfloat" where
  "py_float s =
     (let t = num_strip s in if floatvalue t then Inr (Float_Of t) else Inl ValueError)"

section \<open>The reference-data loader\<close>

text \<open>
  An open text file is the content that is still unread. \<^verbatim>\<open>readline()\<close> takes the next
  line with its newline, or what is left when no newline follows; at the end of the file
  it returns the empty string, as often as it is called.
\<close>

fun readline :: "string \<Rightarrow> string \<times> string" where
  "readline [] = ([], [])"
| "readline (c # cs) =
     (if c = newline then ([c], cs) else (case readline cs of (l, r) \<Rightarrow> (c # l, r)))"

text \<open>
  \<^verbatim>\<open>
    line = airport_file.readline()
    while line != '\n':
        line = airport_file.readline()
  \<close>
  The loop has no other exit: \<open>None\<close> is the run that never leaves it.
\<close>

partial_function (option) skip_header :: "string \<Rightarrow> string \<Rightarrow> string option" where
  "skip_header line airport_file =
     (if line \<noteq> [newline]
      then skip_header (fst (readline airport_file)) (snd (readline airport_file))
      else Some airport_file)"

text \<open>
  A value stored in a list of the dictionary is a \<^verbatim>\<open>str\<close> or a \<^verbatim>\<open>float\<close>.
\<close>

datatype pyval = PStr string | PFloat pyfloat

type_synonym airport_data = "string \<rightharpoonup> pyval list"

text \<open>
  The statements under \<^verbatim>\<open>try:\<close> for one line.
  \<^verbatim>\<open>
    icao, name, lat, lon, dest_ceil, dest_vis,\
    noAlt_ceil, noAlt_vis, alt_ceil, alt_vis = line.strip().split(",")
    data = {icao: [float(lat), float(lon)]}
    if icao not in airport_data:
        airport_data[icao] = [name, lat, lon, dest_ceil, dest_vis,\
                              noAlt_ceil, noAlt_vis, alt_ceil, alt_vis]
    else:
        airport_data[icao].append(name, lat, lon, dest_ceil, dest_vis,\
                                  noAlt_ceil, noAlt_vis, alt_ceil, alt_vis)
  \<close>
  Unpacking a list that has not ten elements raises \<^verbatim>\<open>ValueError\<close>. \<^verbatim>\<open>data\<close> is never
  read again. \<^verbatim>\<open>list.append\<close> takes one argument: the call with nine raises
  \<^verbatim>\<open>TypeError\<close>.
\<close>

definition try_line :: "airport_data \<Rightarrow> string \<Rightarrow> error + airport_data" where
  "try_line airport_data line =
     (case split_comma (strip line) of
        [icao, name, lat, lon, dest_ceil, dest_vis, noAlt_ceil, noAlt_vis, alt_ceil, alt_vis] \<Rightarrow>
          (case py_float lat of
             Inl e \<Rightarrow> Inl e
           | Inr flat \<Rightarrow>
               (case py_float lon of
                  Inl e \<Rightarrow> Inl e
                | Inr flon \<Rightarrow>
                    if icao \<notin> dom airport_data
                    then Inr (airport_data(icao \<mapsto>
                           [PStr name, PStr lat, PStr lon, PStr dest_ceil, PStr dest_vis,
                            PStr noAlt_ceil, PStr noAlt_vis, PStr alt_ceil, PStr alt_vis]))
                    else Inl TypeError))
      | _ \<Rightarrow> Inl ValueError)"

text \<open>\<^verbatim>\<open>except ValueError: pass\<close>: any other exception leaves the loop and the function.\<close>

definition loop_body :: "airport_data \<Rightarrow> string \<Rightarrow> error + airport_data" where
  "loop_body airport_data line =
     (case try_line airport_data line of
        Inl ValueError \<Rightarrow> Inr airport_data
      | Inl e \<Rightarrow> Inl e
      | Inr d \<Rightarrow> Inr d)"

fun for_lines :: "airport_data \<Rightarrow> string list \<Rightarrow> error + airport_data" where
  "for_lines airport_data [] = Inr airport_data"
| "for_lines airport_data (line # lines) =
     (case loop_body airport_data line of
        Inl e \<Rightarrow> Inl e
      | Inr d \<Rightarrow> for_lines d lines)"

text \<open>
  The whole function: \<open>None\<close> when the header loop never ends, \<open>Some (Inl e)\<close> when
  the exception \<open>e\<close> leaves it, \<open>Some (Inr d)\<close> when it returns the dictionary \<open>d\<close>.
\<close>

definition read_airport_data :: "string \<Rightarrow> (error + airport_data) option" where
  "read_airport_data airport_file =
     (case skip_header (fst (readline airport_file)) (snd (readline airport_file)) of
        None \<Rightarrow> None
      | Some rest \<Rightarrow> Some (for_lines Map.empty (readlines rest)))"

section \<open>The timestamp parser\<close>

text \<open>
  \<^verbatim>\<open>datetime.datetime(year, month, day, hour, minute)\<close> raises \<^verbatim>\<open>ValueError\<close> unless
  \<open>1 \<le> year \<le> 9999\<close>, \<open>1 \<le> month \<le> 12\<close>, the day exists in that month of that
  year, \<open>0 \<le> hour \<le> 23\<close> and \<open>0 \<le> minute \<le> 59\<close>.
\<close>

record datetime =
  year :: int
  month :: int
  day :: int
  hour :: int
  minute :: int

definition is_leap :: "int \<Rightarrow> bool" where
  "is_leap y \<longleftrightarrow> y mod 4 = 0 \<and> (y mod 100 \<noteq> 0 \<or> y mod 400 = 0)"

definition days_in_month :: "int \<Rightarrow> int \<Rightarrow> int" where
  "days_in_month y m =
     (if m = 2 then (if is_leap y then 29 else 28)
      else if m = 4 \<or> m = 6 \<or> m = 9 \<or> m = 11 then 30 else 31)"

definition valid_datetime :: "int \<Rightarrow> int \<Rightarrow> int \<Rightarrow> int \<Rightarrow> int \<Rightarrow> bool" where
  "valid_datetime y m d h mi \<longleftrightarrow>
     1 \<le> y \<and> y \<le> 9999 \<and> 1 \<le> m \<and> m \<le> 12 \<and> 1 \<le> d \<and> d \<le> days_in_month y m \<and>
     0 \<le> h \<and> h \<le> 23 \<and> 0 \<le> mi \<and> mi \<le> 59"

definition datetime_new :: "int \<Rightarrow> int \<Rightarrow> int \<Rightarrow> int \<Rightarrow> int \<Rightarrow> error + datetime" where
  "datetime_new y m d h mi =
     (if valid_datetime y m d h mi
      then Inr \<lparr>year = y, month = m, day = d, hour = h, minute = mi\<rparr>
      else Inl ValueError)"

text \<open>
  \<^verbatim>\<open>
    year   = int(line[:4])
    month  = int(line[5:7])
    day    = int(line[8:10])
    hour   = int(line[11:13])
    minute = int(line[14:16])
    date_time = datetime.datetime(year, month, day, hour, minute)
  \<close>
\<close>

definition get_datetime :: "string \<Rightarrow> error + datetime" where
  "get_datetime line =
     (case py_int (slice 0 4 line) of Inl e \<Rightarrow> Inl e | Inr y \<Rightarrow>
     (case py_int (slice 5 7 line) of Inl e \<Rightarrow> Inl e | Inr m \<Rightarrow>
     (case py_int (slice 8 10 line) of Inl e \<Rightarrow> Inl e | Inr d \<Rightarrow>
     (case py_int (slice 11 13 line) of Inl e \<Rightarrow> Inl e | Inr h \<Rightarrow>
     (case py_int (slice 14 16 line) of Inl e \<Rightarrow> Inl e | Inr mi \<Rightarrow>
        datetime_new y m d h mi)))))"

section \<open>The interval extraction\<close>

text \<open>
  \<^verbatim>\<open>
    place = 0
    for i in string:
        if i == '/':
            place = i
    group = string[i+11:i+20]
    return group
  \<close>
  After the loop \<^verbatim>\<open>i\<close> is the last character of the string, a \<^verbatim>\<open>str\<close> of length one,
  or is not bound at all when the string is empty. Adding an \<^verbatim>\<open>int\<close> to a \<^verbatim>\<open>str\<close>
  raises \<^verbatim>\<open>TypeError\<close>; reading a local name that is not bound raises
  \<^verbatim>\<open>UnboundLocalError\<close>.
\<close>

definition str_plus_int :: "string \<Rightarrow> int \<Rightarrow> error + nat" where
  "str_plus_int s n = Inl TypeError"

definition search_string :: "string \<Rightarrow> error + string" where
  "search_string string =
     (case foldl (\<lambda>(place, i) c. (if c = CHR ''/'' then Some c else place, Some c))
             (None, None) string of
        (place, None) \<Rightarrow> Inl UnboundLocalError
      | (place, Some i) \<Rightarrow>
          (case str_plus_int [i] 11 of
             Inl e \<Rightarrow> Inl e
           | Inr lo \<Rightarrow>
               (case str_plus_int [i] 20 of
                  Inl e \<Rightarrow> Inl e
                | Inr hi \<Rightarrow> Inr (slice lo hi string))))"

section \<open>Notions the properties are stated with\<close>

text \<open>
  The lines of a reference file that follow its first blank line: the lines the
  \<^verbatim>\<open>for\<close> loop of the loader reads.
\<close>

definition records :: "string \<Rightarrow> string list" where
  "records f = tl (dropWhile (\<lambda>l. l \<noteq> [newline]) (readlines f))"

text \<open>
  The comma-separated fields of a line as the loader sees them, and a line the loader
  cannot take: it has not ten fields, or its third or fourth field (latitude, longitude)
  is no number for \<^verbatim>\<open>float\<close>.
\<close>

definition fields :: "string \<Rightarrow> string list" where
  "fields line = split_comma (strip line)"

definition malformed :: "string \<Rightarrow> bool" where
  "malformed line \<longleftrightarrow>
     length (fields line) \<noteq> 10 \<or>
     py_float (fields line ! 2) = Inl ValueError \<or>
     py_float (fields line ! 3) = Inl ValueError"

text \<open>A record written out: its fields with a comma between each two.\<close>

fun join_comma :: "string list \<Rightarrow> string" where
  "join_comma [] = []"
| "join_comma [f] = f"
| "join_comma (f # g # fs) = f @ CHR '','' # join_comma (g # fs)"

text \<open>
  A stored record whose second and third entries (latitude, longitude) are \<^verbatim>\<open>float\<close>
  objects.
\<close>

definition lat_lon_are_floats :: "pyval list \<Rightarrow> bool" where
  "lat_lon_are_floats vals =
     (case vals of name # PFloat lat # PFloat lon # rest \<Rightarrow> True | _ \<Rightarrow> False)"

text \<open>
  Sixteen characters of the form \<^verbatim>\<open>YYYY/MM/DD HH:MM\<close>: digits at the offsets 0 to 3, 5 and
  6, 8 and 9, 11 and 12, 14 and 15, and the separators between them.
\<close>

definition timestamp_pattern :: "string \<Rightarrow> bool" where
  "timestamp_pattern s \<longleftrightarrow>
     length s = 16 \<and>
     list_all is_digit (slice 0 4 s) \<and> s ! 4 = CHR ''/'' \<and>
     list_all is_digit (slice 5 7 s) \<and> s ! 7 = CHR ''/'' \<and>
     list_all is_digit (slice 8 10 s) \<and> s ! 10 = CHR '' '' \<and>
     list_all is_digit (slice 11 13 s) \<and> s ! 13 = CHR '':'' \<and>
     list_all is_digit (slice 14 16 s)"

section \<open>Sample inputs\<close>

text \<open>Servers: one where every open fails, and four that serve the station EBCV.\<close>

definition served :: "string \<Rightarrow> response io" where
  "served content = Ok \<lparr>body = Ok content, closing = Ok ()\<rparr>"

definition net_down :: network where
  "net_down urlStr = IOError"

definition net_mixed :: network where
  "net_mixed urlStr =
     (if urlStr = taf_url ''EBCV'' then Ok \<lparr>body = IOError, closing = Ok ()\<rparr>
      else if urlStr = shorttaf_url ''EBCV''
      then served (''2012/11/18 19:45'' @ [newline] @ ''TAF EBCV 181541Z 1819/1907'' @ [newline])
      else Ok \<lparr>body = Ok ''2012/11/06 08:38'', closing = IOError\<rparr>)"

definition net_2012 :: network where
  "net_2012 urlStr =
     (if urlStr = taf_url ''EBCV''
      then served (''2012/11/19 13:51'' @ [newline] @ ''TAF EBCV 191141Z 1913/1922'' @ [newline])
      else if urlStr = shorttaf_url ''EBCV''
      then served (''2012/11/18 19:45'' @ [newline] @ ''TAF EBCV 181541Z 1819/1907'' @ [newline])
      else served (''2012/11/06 08:38'' @ [newline] @ ''EBCV 060838Z VRB03KT'' @ [newline]))"

definition net_short_down :: network where
  "net_short_down urlStr =
     (if urlStr = taf_url ''EBCV''
      then served (''2012/11/19 13:51'' @ [newline] @ ''TAF EBCV 191141Z 1913/1922'' @ [newline])
      else IOError)"

definition net_empty_taf :: network where
  "net_empty_taf urlStr =
     (if urlStr = taf_url ''EBCV'' then served []
      else served (''2012/11/18 19:45'' @ [newline]))"

text \<open>
  Reference files: the example of the specification, a file with three lines the loader
  cannot take before a good one, and a file that names one station twice. One more line
  the loader cannot take has a latitude between a no-break space and the character 28,
  which \<^verbatim>\<open>float\<close> does not remove.
\<close>

definition sample_file :: string where
  "sample_file =
     ''HEADER LINE'' @ [newline] @ [newline] @
     ''EBCV,Chievres,50.583333,3.833333,200,400,600,2000,600,2000''"

definition nine_fields :: string where
  "nine_fields = ''EBBR,Brussels,50.897170,4.483602,200,400,600,2000,600'' @ [newline]"

definition eleven_fields :: string where
  "eleven_fields =
     ''ETIH,Illesheim,49.466667,10.383333,400,1600,1500,3200,1500,3200,1'' @ [newline]"

definition bad_latitude :: string where
  "bad_latitude = ''EHAM,Schiphol,north,4.763889,200,400,600,2000,600,2000'' @ [newline]"

definition odd_latitude :: string where
  "odd_latitude =
     ''LFPG,Roissy,'' @ [CHR 0xA0, CHR ''1'', CHR 0x1C] @
     '',2.547778,200,400,600,2000,600,2000'' @ [newline]"

definition cologne :: string where
  "cologne = ''EDDK,Cologne,50.878365,7.1222224,200,400,600,2000,600,2000'' @ [newline]"

definition mixed_file :: string where
  "mixed_file =
     ''ICAO,NAME,LAT,LON'' @ [newline] @ ''second header line'' @ [newline] @ [newline] @
     nine_fields @ eleven_fields @ bad_latitude @ cologne"

definition duplicate_file :: string where
  "duplicate_file =
     ''HEADER LINE'' @ [newline] @ [newline] @
     ''EBCV,Chievres,50.583333,3.833333,200,400,600,2000,600,2000'' @ [newline] @
     ''EBCV,Chievres,50.583333,3.833333,200,400,600,2000,600,2000'' @ [newline]"

section \<open>Properties of the fetchers\<close>




section \<open>Properties of the report selector\<close>

text \<open>
  Claim C1, as amended. The selector calls the standard fetcher, then the short one
  (what they print comes out in that order). It returns the short result when the
  standard result is the sentinel, also when the short one is the sentinel too;
  otherwise the standard result when the short one is the sentinel; otherwise, when both
  results have a first line, the standard result if its first line is greater in the
  lexicographic order than the first line of the short result, and the short result if
  not. What is returned is the fetcher's result as it is.
\<close>

theorem latest_report_selection:
  "fst (get_latest_report net icao) = fst (get_taf net icao) @ fst (get_shorttaf net icao) \<and>
   (snd (get_taf net icao) = Error_Str \<longrightarrow>
      snd (get_latest_report net icao) = Inr (snd (get_shorttaf net icao))) \<and>
   (snd (get_taf net icao) \<noteq> Error_Str \<and> snd (get_shorttaf net icao) = Error_Str \<longrightarrow>
      snd (get_latest_report net icao) = Inr (snd (get_taf net icao))) \<and>
   (\<forall>t ts s ss. snd (get_taf net icao) = Lines (t # ts) \<and>
        snd (get_shorttaf net icao) = Lines (s # ss) \<longrightarrow>
      snd (get_latest_report net icao) =
        Inr (if t > s then Lines (t # ts) else Lines (s # ss)))"
  by (auto simp: get_latest_report_def Let_def split: prod.splits report.splits list.splits)

theorem latest_report_selection_witness:
  "snd (get_taf net_down ''EBCV'') = Error_Str \<and>
   snd (get_latest_report net_down ''EBCV'') = Inr Error_Str \<and>
   snd (get_taf net_mixed ''EBCV'') = Error_Str \<and>
   snd (get_latest_report net_mixed ''EBCV'') =
     Inr (Lines [''2012/11/18 19:45'' @ [newline], ''TAF EBCV 181541Z 1819/1907'' @ [newline]]) \<and>
   snd (get_shorttaf net_short_down ''EBCV'') = Error_Str \<and>
   snd (get_latest_report net_short_down ''EBCV'') =
     Inr (Lines [''2012/11/19 13:51'' @ [newline], ''TAF EBCV 191141Z 1913/1922'' @ [newline]]) \<and>
   snd (get_taf net_2012 ''EBCV'') =
     Lines [''2012/11/19 13:51'' @ [newline], ''TAF EBCV 191141Z 1913/1922'' @ [newline]] \<and>
   snd (get_shorttaf net_2012 ''EBCV'') =
     Lines [''2012/11/18 19:45'' @ [newline], ''TAF EBCV 181541Z 1819/1907'' @ [newline]] \<and>
   snd (get_latest_report net_2012 ''EBCV'') =
     Inr (Lines [''2012/11/19 13:51'' @ [newline], ''TAF EBCV 191141Z 1913/1922'' @ [newline]])"
  using latest_report_selection [of net_down "''EBCV''"]
    latest_report_selection [of net_mixed "''EBCV''"]
    latest_report_selection [of net_short_down "''EBCV''"]
    latest_report_selection [of net_2012 "''EBCV''"]
  by (simp add: get_taf_def get_shorttaf_def try_block_def net_down_def net_mixed_def
        net_short_down_def net_2012_def served_def taf_url_def shorttaf_url_def)

text \<open>
  The claim as it was stated fails where a resource is served empty: the fetch succeeds
  with no line at all, and the selector raises \<^verbatim>\<open>IndexError\<close> instead of returning one
  of the two results.
\<close>

theorem latest_report_empty_counterexample:
  "snd (get_taf net_empty_taf ''EBCV'') = Lines [] \<and>
   snd (get_shorttaf net_empty_taf ''EBCV'') = Lines [''2012/11/18 19:45'' @ [newline]] \<and>
   snd (get_latest_report net_empty_taf ''EBCV'') = Inl IndexError"
  by (simp add: get_latest_report_def get_taf_def get_shorttaf_def try_block_def
        net_empty_taf_def served_def taf_url_def shorttaf_url_def)

section \<open>Properties of the reference-data loader\<close>

subsection \<open>The header loop\<close>

lemma readlines_readline:
  "f \<noteq> [] \<Longrightarrow> readlines f = fst (readline f) # readlines (snd (readline f))"
proof (induction f)
  case Nil
  then show ?case by simp
next
  case (Cons c cs)
  show ?case
  proof (cases "cs = []")
    case True
    then show ?thesis by simp
  next
    case False
    with Cons.IH show ?thesis by (simp add: split_beta)
  qed
qed

lemma length_snd_readline: "length (snd (readline f)) \<le> length f"
  by (induction f) (auto simp: split_beta)

lemma length_snd_readline_less: "f \<noteq> [] \<Longrightarrow> length (snd (readline f)) < length f"
  using length_snd_readline [of "tl f"] by (cases f) (auto simp: split_beta)

lemma skip_header_blank: "skip_header [newline] f = Some f"
  by (subst skip_header.simps) simp

lemma skip_header_other:
  "line \<noteq> [newline] \<Longrightarrow>
   skip_header line f = skip_header (fst (readline f)) (snd (readline f))"
  by (subst skip_header.simps) simp

lemma skip_header_returns:
  "[newline] \<in> set (line # readlines f) \<Longrightarrow>
   \<exists>rest. skip_header line f = Some rest \<and>
     dropWhile (\<lambda>l. l \<noteq> [newline]) (line # readlines f) = [newline] # readlines rest"
proof (induction "length f" arbitrary: line f rule: less_induct)
  case less
  show ?case
  proof (cases "line = [newline]")
    case True
    then show ?thesis by (simp add: skip_header_blank)
  next
    case False
    with less.prems have mem: "[newline] \<in> set (readlines f)" by simp
    then have ne: "f \<noteq> []" by auto
    from mem ne have "[newline] \<in> set (fst (readline f) # readlines (snd (readline f)))"
      by (simp add: readlines_readline [symmetric])
    from less.hyps [OF length_snd_readline_less [OF ne] this]
    obtain rest where "skip_header (fst (readline f)) (snd (readline f)) = Some rest"
      and "dropWhile (\<lambda>l. l \<noteq> [newline]) (fst (readline f) # readlines (snd (readline f))) =
        [newline] # readlines rest"
      by blast
    with False ne show ?thesis
      by (simp add: skip_header_other readlines_readline [symmetric])
  qed
qed

lemma skip_header_Some_blank:
  assumes "skip_header line f = Some rest"
  shows "[newline] \<in> set (line # readlines f)"
proof (rule skip_header.raw_induct
    [where P = "\<lambda>line f rest. [newline] \<in> set (line # readlines f)", OF _ assms])
  fix skip :: "string \<Rightarrow> string \<Rightarrow> string option" and line f rest
  assume IH: "\<And>l g r. skip l g = Some r \<Longrightarrow> [newline] \<in> set (l # readlines g)"
    and eq: "(if line \<noteq> [newline] then skip (fst (readline f)) (snd (readline f))
              else Some f) = Some rest"
  show "[newline] \<in> set (line # readlines f)"
  proof (cases "line = [newline]")
    case True
    then show ?thesis by simp
  next
    case False
    with eq have "skip (fst (readline f)) (snd (readline f)) = Some rest" by simp
    then have "[newline] \<in> set (fst (readline f) # readlines (snd (readline f)))"
      by (rule IH)
    then show ?thesis
      by (cases "f = []") (auto simp: readlines_readline [symmetric])
  qed
qed

lemma skip_header_diverges:
  "[newline] \<notin> set (line # readlines f) \<Longrightarrow> skip_header line f = None"
  using skip_header_Some_blank [of line f] by (cases "skip_header line f") auto

lemma read_airport_data_returns:
  assumes "[newline] \<in> set (readlines f)"
  shows "read_airport_data f = Some (for_lines Map.empty (records f))"
proof -
  from assms have ne: "f \<noteq> []" by auto
  with assms have "[newline] \<in> set (fst (readline f) # readlines (snd (readline f)))"
    by (simp add: readlines_readline [symmetric])
  from skip_header_returns [OF this] ne show ?thesis
    by (auto simp: read_airport_data_def records_def readlines_readline [symmetric])
qed

lemma read_airport_data_diverges:
  assumes "[newline] \<notin> set (readlines f)"
  shows "read_airport_data f = None"
proof (cases "f = []")
  case True
  then show ?thesis
    by (simp add: read_airport_data_def skip_header_diverges)
next
  case False
  with assms have "[newline] \<notin> set (fst (readline f) # readlines (snd (readline f)))"
    by (simp add: readlines_readline [symmetric])
  then show ?thesis
    by (simp add: read_airport_data_def skip_header_diverges)
qed

text \<open>
  Claim C10. The loader comes to an end (by returning, or by an exception that leaves
  it) exactly when its input has a blank line, that is a line that is the newline
  character alone. On any other input, the empty one included, the header loop reads to
  the end of the file and then reads the empty string for ever, so the loader never
  returns.
\<close>

theorem read_airport_data_terminates_iff_blank_line:
  "read_airport_data f \<noteq> None \<longleftrightarrow> [newline] \<in> set (readlines f)"
  using read_airport_data_returns [of f] read_airport_data_diverges [of f]
  by (cases "[newline] \<in> set (readlines f)") simp_all

theorem read_airport_data_terminates_iff_blank_line_witness:
  "read_airport_data sample_file \<noteq> None \<and> read_airport_data ''HEADER LINE'' = None \<and>
   read_airport_data (''HEADER LINE'' @ [newline] @ ''EBCV,Chievres'' @ [newline]) = None \<and>
   read_airport_data [] = None"
  using read_airport_data_terminates_iff_blank_line [of sample_file]
    read_airport_data_terminates_iff_blank_line [of "''HEADER LINE''"]
    read_airport_data_terminates_iff_blank_line [of "''HEADER LINE'' @ [newline] @ ''EBCV,Chievres'' @ [newline]"]
    read_airport_data_terminates_iff_blank_line [of "[]"]
  by (simp add: sample_file_def)

subsection \<open>Lines and fields\<close>

lemma split_comma_field:
  "CHR '','' \<notin> set f \<Longrightarrow> split_comma (f @ CHR '','' # r) = f # split_comma r"
  by (induction f) auto

lemma split_comma_last: "CHR '','' \<notin> set f \<Longrightarrow> split_comma f = [f]"
  by (induction f) auto

lemma split_join_comma:
  "fs \<noteq> [] \<Longrightarrow> \<forall>f\<in>set fs. CHR '','' \<notin> set f \<Longrightarrow> split_comma (join_comma fs) = fs"
  by (induction fs rule: join_comma.induct) (auto simp: split_comma_field split_comma_last)

lemma strip_with_snoc:
  assumes "sp c"
  shows "strip_with sp (s @ [c]) = strip_with sp s"
proof (cases "\<forall>x\<in>set s. sp x")
  case True
  then have d: "dropWhile sp s = []" by simp
  from True assms have e: "dropWhile sp (s @ [c]) = []" by simp
  show ?thesis unfolding strip_with_def d e by simp
next
  case False
  with assms show ?thesis by (auto simp: strip_with_def dropWhile_append)
qed

lemma strip_newline: "strip (s @ [newline]) = strip s"
  by (simp add: strip_def strip_with_snoc isspace_def)

lemma readlines_line:
  "newline \<notin> set h \<Longrightarrow> readlines (h @ newline # r) = (h @ [newline]) # readlines r"
  by (induction h) auto

lemma readlines_last: "newline \<notin> set r \<Longrightarrow> r \<noteq> [] \<Longrightarrow> readlines r = [r]"
proof (induction r)
  case Nil
  then show ?case by simp
next
  case (Cons c cs)
  then show ?case by (cases "cs = []") auto
qed

lemma readlines_header:
  "\<forall>h\<in>set hs. newline \<notin> set h \<Longrightarrow>
   readlines (concat (map (\<lambda>h. h @ [newline]) hs) @ r) = map (\<lambda>h. h @ [newline]) hs @ readlines r"
  by (induction hs) (auto simp: readlines_line)

lemma py_float_cases: "py_float s = Inl ValueError \<or> (\<exists>x. py_float s = Inr x)"
  by (simp add: py_float_def Let_def)

lemma try_line_ten:
  "fields line = [icao, name, lat, lon, dest_ceil, dest_vis, noAlt_ceil, noAlt_vis, alt_ceil, alt_vis] \<Longrightarrow>
   try_line d line =
     (if py_float lat = Inl ValueError \<or> py_float lon = Inl ValueError then Inl ValueError
      else if icao \<notin> dom d
      then Inr (d(icao \<mapsto> [PStr name, PStr lat, PStr lon, PStr dest_ceil, PStr dest_vis,
                  PStr noAlt_ceil, PStr noAlt_vis, PStr alt_ceil, PStr alt_vis]))
      else Inl TypeError)"
  using py_float_cases [of lat] py_float_cases [of lon]
  by (auto simp: try_line_def fields_def)

lemma length_ten:
  "length (fs :: 'a list) = 10 \<Longrightarrow> \<exists>a b c d e f g h i j. fs = [a, b, c, d, e, f, g, h, i, j]"
  by (auto simp: eval_nat_numeral length_Suc_conv)

lemma try_line_not_ten: "length (fields line) \<noteq> 10 \<Longrightarrow> try_line d line = Inl ValueError"
  by (auto simp: try_line_def fields_def split: list.splits)

lemma loop_body_malformed: "malformed line \<Longrightarrow> loop_body d line = Inr d"
proof (cases "length (fields line) = 10")
  case False
  then show ?thesis by (simp add: loop_body_def try_line_not_ten)
next
  case True
  assume m: "malformed line"
  from length_ten [OF True] obtain a b c e f g h i j k
    where fs: "fields line = [a, b, c, e, f, g, h, i, j, k]" by blast
  from m True fs have "py_float c = Inl ValueError \<or> py_float e = Inl ValueError"
    by (simp add: malformed_def)
  with try_line_ten [OF fs, of d] show ?thesis by (auto simp: loop_body_def)
qed

lemma for_lines_append:
  "for_lines d (xs @ ys) = (case for_lines d xs of Inl e \<Rightarrow> Inl e | Inr d' \<Rightarrow> for_lines d' ys)"
  by (induction xs arbitrary: d) (auto split: sum.splits)

lemma for_lines_skip:
  "malformed line \<Longrightarrow> for_lines d (before @ line # after) = for_lines d (before @ after)"
  by (simp add: for_lines_append loop_body_malformed split: sum.splits)

lemma newline_join_comma:
  "\<forall>f\<in>set fs. newline \<notin> set f \<Longrightarrow> newline \<notin> set (join_comma fs)"
  by (induction fs rule: join_comma.induct) auto


lemma dropWhile_header:
  assumes "[newline] \<notin> set header"
  shows "dropWhile (\<lambda>l. l \<noteq> [newline]) (header @ [newline] # rest) = [newline] # rest"
proof -
  from assms have "\<And>x. x \<in> set header \<Longrightarrow> x \<noteq> [newline]" by auto
  then show ?thesis by (simp add: dropWhile_append2)
qed

lemma read_airport_data_lines:
  assumes "readlines f = header @ [newline] # rest" and "[newline] \<notin> set header"
  shows "read_airport_data f = Some (for_lines Map.empty rest)"
proof -
  from assms(1) have "[newline] \<in> set (readlines f)" by simp
  then have "read_airport_data f = Some (for_lines Map.empty (records f))"
    by (rule read_airport_data_returns)
  moreover have "records f = rest"
    by (simp add: records_def assms(1) dropWhile_header [OF assms(2)])
  ultimately show ?thesis by simp
qed

lemmas eval_defs = fields_def strip_def strip_with_def isspace_def py_float_def num_strip_def
  c_isspace_def is_ascii_def floatvalue_def unsigned_def floatnumber_def number_def
  is_digit_def lower_def

lemma sample_eval:
  "read_airport_data sample_file =
     Some (Inr [''EBCV'' \<mapsto> [PStr ''Chievres'', PStr ''50.583333'', PStr ''3.833333'',
       PStr ''200'', PStr ''400'', PStr ''600'', PStr ''2000'', PStr ''600'', PStr ''2000'']])"
proof -
  have "[newline] \<in> set (readlines sample_file)" by (simp add: sample_file_def)
  then have "read_airport_data sample_file = Some (for_lines Map.empty (records sample_file))"
    by (rule read_airport_data_returns)
  also have "records sample_file = [''EBCV,Chievres,50.583333,3.833333,200,400,600,2000,600,2000'']"
    by (simp add: records_def sample_file_def)
  also have "for_lines Map.empty [''EBCV,Chievres,50.583333,3.833333,200,400,600,2000,600,2000''] = 
     Inr [''EBCV'' \<mapsto> [PStr ''Chievres'', PStr ''50.583333'', PStr ''3.833333'',
       PStr ''200'', PStr ''400'', PStr ''600'', PStr ''2000'', PStr ''600'', PStr ''2000'']]"
    by (simp add: loop_body_def try_line_def eval_defs)
  finally show ?thesis .
qed

subsection \<open>One record\<close>

text \<open>
  Claim C2, as amended. The input is a header of any number of lines that are not
  blank, one blank line, and one record of ten comma-separated fields, with or without a
  newline after it; no field holds a comma or a newline, the record has no white space
  at either end, and \<^verbatim>\<open>float\<close> reads its latitude and its longitude. Then the loader
  returns the dictionary with one entry: the key is the identifier, the value is the
  list of the other nine fields, every one of them, latitude and longitude too, the text
  that was given.
\<close>

theorem loader_single_record:
  assumes header: "\<forall>h\<in>set header. h \<noteq> [] \<and> newline \<notin> set h"
    and fields: "\<forall>f\<in>set [icao, name, lat, lon, dest_ceil, dest_vis, noAlt_ceil, noAlt_vis,
        alt_ceil, alt_vis]. CHR '','' \<notin> set f \<and> newline \<notin> set f"
    and line: "line = join_comma [icao, name, lat, lon, dest_ceil, dest_vis, noAlt_ceil,
        noAlt_vis, alt_ceil, alt_vis]"
    and clean: "strip line = line"
    and numbers: "py_float lat \<noteq> Inl ValueError \<and> py_float lon \<noteq> Inl ValueError"
    and ending: "ending = [] \<or> ending = [newline]"
  shows "read_airport_data (concat (map (\<lambda>h. h @ [newline]) header) @ [newline] @ line @ ending) =
     Some (Inr [icao \<mapsto> [PStr name, PStr lat, PStr lon, PStr dest_ceil, PStr dest_vis,
       PStr noAlt_ceil, PStr noAlt_vis, PStr alt_ceil, PStr alt_vis]])"
proof -
  let ?fs = "[icao, name, lat, lon, dest_ceil, dest_vis, noAlt_ceil, noAlt_vis, alt_ceil, alt_vis]"
  let ?hs = "map (\<lambda>h. h @ [newline]) header"
  from fields have nl: "newline \<notin> set line"
    unfolding line by (intro newline_join_comma) simp
  have ne: "line \<noteq> []" by (simp add: line)
  from nl ne ending have last: "readlines (line @ ending) = [line @ ending]"
    using readlines_line [of line "[]"] readlines_last [of line] by auto
  from header have "readlines (concat ?hs @ [newline] @ line @ ending) =
      ?hs @ readlines ([newline] @ line @ ending)"
    by (intro readlines_header) simp
  with last have lines: "readlines (concat ?hs @ [newline] @ line @ ending) =
      ?hs @ [newline] # [line @ ending]"
    by simp
  from header have "[newline] \<notin> set ?hs" by auto
  from read_airport_data_lines [OF lines this]
  have result: "read_airport_data (concat ?hs @ [newline] @ line @ ending) =
      Some (for_lines Map.empty [line @ ending])" .
  from ending clean have "strip (line @ ending) = line"
    by (auto simp: strip_newline)
  moreover from fields have "split_comma (join_comma ?fs) = ?fs"
    by (intro split_join_comma) simp_all
  ultimately have "fields (line @ ending) = ?fs"
    by (simp add: fields_def line)
  from try_line_ten [OF this, of Map.empty] numbers
  have "loop_body Map.empty (line @ ending) =
      Inr [icao \<mapsto> [PStr name, PStr lat, PStr lon, PStr dest_ceil, PStr dest_vis,
        PStr noAlt_ceil, PStr noAlt_vis, PStr alt_ceil, PStr alt_vis]]"
    by (simp add: loop_body_def)
  with result show ?thesis by simp
qed

theorem loader_single_record_witness:
  "read_airport_data sample_file =
     Some (Inr [''EBCV'' \<mapsto> [PStr ''Chievres'', PStr ''50.583333'', PStr ''3.833333'',
       PStr ''200'', PStr ''400'', PStr ''600'', PStr ''2000'', PStr ''600'', PStr ''2000'']])"
  using loader_single_record [of "[''HEADER LINE'']" "''EBCV''" "''Chievres''" "''50.583333''"
      "''3.833333''" "''200''" "''400''" "''600''" "''2000''" "''600''" "''2000''"
      "''EBCV,Chievres,50.583333,3.833333,200,400,600,2000,600,2000''" "[]"]
  by (simp add: sample_file_def eval_defs)

text \<open>
  The claim as it was stated fails on the example of the specification: the latitude and
  the longitude in the dictionary are the strings of the file, not \<^verbatim>\<open>float\<close> objects.
  The numbers \<^verbatim>\<open>float\<close> returns go into \<^verbatim>\<open>data\<close>, which nothing reads.
\<close>

theorem loader_keeps_text_counterexample:
  "read_airport_data sample_file =
     Some (Inr [''EBCV'' \<mapsto> [PStr ''Chievres'', PStr ''50.583333'', PStr ''3.833333'',
       PStr ''200'', PStr ''400'', PStr ''600'', PStr ''2000'', PStr ''600'', PStr ''2000'']]) \<and>
   \<not> lat_lon_are_floats [PStr ''Chievres'', PStr ''50.583333'', PStr ''3.833333'',
       PStr ''200'', PStr ''400'', PStr ''600'', PStr ''2000'', PStr ''600'', PStr ''2000'']"
  by (simp add: sample_eval lat_lon_are_floats_def)

subsection \<open>Lines the loader cannot take\<close>

text \<open>
  Claim C3. A line after the header that has not ten comma-separated fields, or whose
  latitude or longitude \<^verbatim>\<open>float\<close> cannot read, is passed over: the loop body raises
  nothing and leaves the dictionary as it was, the loop goes on with the lines that
  follow, and the loader returns what it returns on the same lines without that one, so
  the records after it are loaded.
\<close>

theorem malformed_line_is_skipped:
  assumes "malformed line"
  shows "loop_body d line = Inr d \<and>
    for_lines d (before @ line # after) = for_lines d (before @ after) \<and>
    ([newline] \<notin> set header \<and> readlines f = header @ [newline] # before @ line # after \<longrightarrow>
       read_airport_data f = Some (for_lines Map.empty (before @ after)))"
  using assms
  by (auto simp: loop_body_malformed for_lines_skip dest: read_airport_data_lines)

theorem malformed_line_is_skipped_witness:
  "malformed nine_fields \<and> malformed eleven_fields \<and> malformed bad_latitude \<and>
   malformed odd_latitude \<and> loop_body Map.empty odd_latitude = Inr Map.empty \<and>
   read_airport_data mixed_file =
     Some (Inr [''EDDK'' \<mapsto> [PStr ''Cologne'', PStr ''50.878365'', PStr ''7.1222224'',
       PStr ''200'', PStr ''400'', PStr ''600'', PStr ''2000'', PStr ''600'', PStr ''2000'']])"
proof -
  have m: "malformed nine_fields" "malformed eleven_fields" "malformed bad_latitude"
    by (simp_all add: malformed_def nine_fields_def eleven_fields_def bad_latitude_def eval_defs)
  have o: "malformed odd_latitude"
    by (simp add: malformed_def odd_latitude_def eval_defs)
  from malformed_line_is_skipped [OF o, of Map.empty]
  have skipped: "loop_body Map.empty odd_latitude = Inr Map.empty"
    by simp
  have l: "readlines mixed_file =
      [''ICAO,NAME,LAT,LON'' @ [newline], ''second header line'' @ [newline]] @ [newline] #
      [] @ nine_fields # [eleven_fields, bad_latitude, cologne]"
    by (simp add: mixed_file_def nine_fields_def eleven_fields_def bad_latitude_def cologne_def)
  have "[newline] \<notin> set [''ICAO,NAME,LAT,LON'' @ [newline], ''second header line'' @ [newline]]"
    by simp
  with malformed_line_is_skipped [OF m(1), of Map.empty "[]" "[eleven_fields, bad_latitude, cologne]"
      "[''ICAO,NAME,LAT,LON'' @ [newline], ''second header line'' @ [newline]]" mixed_file] l
  have "read_airport_data mixed_file =
      Some (for_lines Map.empty [eleven_fields, bad_latitude, cologne])"
    by simp
  moreover have "for_lines Map.empty [eleven_fields, bad_latitude, cologne] =
      Inr [''EDDK'' \<mapsto> [PStr ''Cologne'', PStr ''50.878365'', PStr ''7.1222224'',
       PStr ''200'', PStr ''400'', PStr ''600'', PStr ''2000'', PStr ''600'', PStr ''2000'']]"
    by (simp add: loop_body_def try_line_def eleven_fields_def bad_latitude_def cologne_def eval_defs)
  ultimately show ?thesis using m o skipped by simp
qed

subsection \<open>An identifier on two lines\<close>

text \<open>
  Claim C4 says that an identifier on more than one good line is no failure. The loader
  fails on such a file: for the second line it calls \<^verbatim>\<open>append\<close> with nine arguments,
  and the \<^verbatim>\<open>TypeError\<close> of that call is not the \<^verbatim>\<open>ValueError\<close> the loop catches.
\<close>

theorem duplicate_identifier_raises:
  "read_airport_data duplicate_file = Some (Inl TypeError)"
proof -
  have "readlines duplicate_file = [''HEADER LINE'' @ [newline]] @ [newline] #
      [''EBCV,Chievres,50.583333,3.833333,200,400,600,2000,600,2000'' @ [newline],
       ''EBCV,Chievres,50.583333,3.833333,200,400,600,2000,600,2000'' @ [newline]]"
    by (simp add: duplicate_file_def)
  moreover have "[newline] \<notin> set [''HEADER LINE'' @ [newline]]" by simp
  ultimately have "read_airport_data duplicate_file = Some (for_lines Map.empty
      [''EBCV,Chievres,50.583333,3.833333,200,400,600,2000,600,2000'' @ [newline],
       ''EBCV,Chievres,50.583333,3.833333,200,400,600,2000,600,2000'' @ [newline]])"
    by (rule read_airport_data_lines)
  then show ?thesis
    by (simp add: loop_body_def try_line_def eval_defs)
qed

section \<open>Properties of the timestamp parser\<close>

lemma is_digit_plain:
  "is_digit c \<Longrightarrow> \<not> c_isspace c \<and> is_ascii c \<and> c \<noteq> CHR ''+'' \<and> c \<noteq> CHR ''-'' \<and> c \<noteq> CHR ''_''"
  by (auto simp: is_digit_def c_isspace_def is_ascii_def)

lemma digits_digitpart: "s \<noteq> [] \<Longrightarrow> list_all is_digit s \<Longrightarrow> digitpart s"
  by (induction s rule: digitpart.induct) (auto dest: is_digit_plain)

lemma digits_no_underscore: "list_all is_digit s \<Longrightarrow> filter (\<lambda>c. c \<noteq> CHR ''_'') s = s"
  by (induction s) (auto dest: is_digit_plain)

lemma digits_dropWhile: "list_all is_digit s \<Longrightarrow> dropWhile c_isspace s = s"
  by (cases s) (auto dest: is_digit_plain)

lemma digits_num_strip:
  assumes "list_all is_digit s"
  shows "num_strip s = s"
proof -
  from assms have "list_all is_ascii s"
    by (auto simp: list_all_iff dest: is_digit_plain)
  moreover from assms have "list_all is_digit (rev s)"
    by (simp add: list_all_iff)
  then have "dropWhile c_isspace (rev s) = rev s"
    by (rule digits_dropWhile)
  ultimately show ?thesis
    by (simp add: num_strip_def strip_with_def digits_dropWhile [OF assms])
qed

lemma digits_unsigned: "list_all is_digit s \<Longrightarrow> unsigned s = s"
  by (cases s) (auto simp: unsigned_def dest: is_digit_plain)

lemma py_int_digits:
  assumes "s \<noteq> []" and "list_all is_digit s"
  shows "py_int s = Inr (decimal s)"
proof -
  from assms have "take 1 s \<noteq> ''-''"
    by (cases s) (auto dest: is_digit_plain)
  with assms show ?thesis
    by (simp add: py_int_def digits_num_strip digits_unsigned digits_digitpart
        digits_no_underscore)
qed

text \<open>
  Claim C7, as amended. When the first sixteen characters of a string have the form
  \<^verbatim>\<open>YYYY/MM/DD HH:MM\<close> and the five numbers are a date and a time that exist (year 1 to
  9999, month 1 to 12, a day of that month, hour 0 to 23, minute 0 to 59), the parser
  returns the date-time with the year read at the offsets 0 to 3, the month at 5 and 6,
  the day at 8 and 9, the hour at 11 and 12 and the minute at 14 and 15, whatever
  follows the sixteenth character.
\<close>

theorem get_datetime_reads_fields:
  assumes "timestamp_pattern stamp"
    and "valid_datetime (decimal (slice 0 4 stamp)) (decimal (slice 5 7 stamp))
      (decimal (slice 8 10 stamp)) (decimal (slice 11 13 stamp)) (decimal (slice 14 16 stamp))"
  shows "get_datetime (stamp @ rest) =
    Inr \<lparr>year = decimal (slice 0 4 stamp), month = decimal (slice 5 7 stamp),
         day = decimal (slice 8 10 stamp), hour = decimal (slice 11 13 stamp),
         minute = decimal (slice 14 16 stamp)\<rparr>"
proof -
  from assms(1) have len: "length stamp = 16" by (simp add: timestamp_pattern_def)
  then have same: "slice 0 4 (stamp @ rest) = slice 0 4 stamp"
    "slice 5 7 (stamp @ rest) = slice 5 7 stamp"
    "slice 8 10 (stamp @ rest) = slice 8 10 stamp"
    "slice 11 13 (stamp @ rest) = slice 11 13 stamp"
    "slice 14 16 (stamp @ rest) = slice 14 16 stamp"
    by (simp_all add: slice_def)
  from len have ne: "slice 0 4 stamp \<noteq> []" "slice 5 7 stamp \<noteq> []" "slice 8 10 stamp \<noteq> []"
    "slice 11 13 stamp \<noteq> []" "slice 14 16 stamp \<noteq> []"
    by (auto simp: slice_def)
  from assms(1) have
    "py_int (slice 0 4 stamp) = Inr (decimal (slice 0 4 stamp))"
    "py_int (slice 5 7 stamp) = Inr (decimal (slice 5 7 stamp))"
    "py_int (slice 8 10 stamp) = Inr (decimal (slice 8 10 stamp))"
    "py_int (slice 11 13 stamp) = Inr (decimal (slice 11 13 stamp))"
    "py_int (slice 14 16 stamp) = Inr (decimal (slice 14 16 stamp))"
    using ne by (simp_all add: timestamp_pattern_def py_int_digits)
  with assms(2) show ?thesis
    by (simp add: get_datetime_def same datetime_new_def)
qed

lemmas stamp_defs = timestamp_pattern_def slice_def is_digit_def decimal_def digit_value_def
  valid_datetime_def days_in_month_def is_leap_def

theorem get_datetime_reads_fields_witness:
  "timestamp_pattern ''2012/11/27 10:54'' \<and>
   get_datetime ''2012/11/27 10:54 rest'' =
     Inr \<lparr>year = 2012, month = 11, day = 27, hour = 10, minute = 54\<rparr>"
  using get_datetime_reads_fields [of "''2012/11/27 10:54''" "'' rest''"]
  by (simp add: stamp_defs)

text \<open>
  The claim as it was stated fails on a string of the right form that names no day of
  the calendar: \<^verbatim>\<open>datetime.datetime\<close> raises \<^verbatim>\<open>ValueError\<close> for the 30th of February.
\<close>

theorem get_datetime_rejects_counterexample:
  "timestamp_pattern ''2012/02/30 10:54'' \<and>
   get_datetime ''2012/02/30 10:54'' = Inl ValueError"
  by (simp add: stamp_defs get_datetime_def py_int_def num_strip_def strip_with_def
      c_isspace_def is_ascii_def unsigned_def datetime_new_def)

section \<open>Properties of the interval extraction\<close>

lemma search_string_loop:
  "snd (foldl (\<lambda>(place, i) c. (if c = CHR ''/'' then Some c else place, Some c)) (None, None) s) =
     (if s = [] then None else Some (last s))"
  by (induction s rule: rev_induct) (auto simp: split_beta)

lemma search_string_raises:
  "search_string s = (if s = [] then Inl UnboundLocalError else Inl TypeError)"
  using search_string_loop [of s]
  by (auto simp: search_string_def str_plus_int_def split: prod.splits option.splits if_splits)

text \<open>
  Claim C9 says that the function returns the token \<^verbatim>\<open>0519/0607\<close> of a header line, as
  its docstring does. On the line of the docstring, and on every string that is not
  empty, it raises \<^verbatim>\<open>TypeError\<close>: the loop variable is a character, and the slice
  bounds add a number to it.
\<close>

theorem search_string_docstring_raises:
  "search_string (''TAF TAF EBCV 051615Z 0519/0607 30005KT 8000 BKN015 '' @ [newline]) =
     Inl TypeError"
  by (simp add: search_string_raises)

end
